theory Spec2Isabelle
  imports Complex_Main "HOL-Library.AList" "HOL-Library.Sublist"
begin

section \<open>Conventions of the embedding\<close>

text \<open>
  A JavaScript \<open>number\<close> is modelled as a \<^typ>\<open>real\<close>: the metrics and scores the program
  handles are finite measurements, and rounding of IEEE doubles is outside the model.
  In the comparison report the quotient of two metrics is modelled by \<open>js_div\<close>, whose
  result says explicitly when JavaScript would produce \<open>Infinity\<close>, \<open>-Infinity\<close> or
  \<open>NaN\<close>; the average of a non-empty list of scores is a quotient of reals.

  A value of type \<open>T | null\<close> (or an optional property) is a \<^typ>\<open>'a option\<close>.
  A \<open>Record<string, T>\<close> is an association list in insertion order: an assignment
  \<open>r[k] = v\<close> is \<^const>\<open>AList.update\<close>, a read \<open>r[k]\<close> is \<^const>\<open>map_of\<close>, and
  \<open>Object.entries\<close>, \<open>Object.keys\<close> and \<open>Object.values\<close> are the list, its first and its
  second components.

  An exception is a value: a computation that can throw returns \<open>js_error + 'a\<close>.
\<close>

datatype js_error =
  TypeError          \<comment> \<open>a property read or a method call on \<open>undefined\<close>\<close>
| ExternalFailure    \<comment> \<open>a rejected promise of an external collaborator\<close>

definition bind_err :: "js_error + 'a \<Rightarrow> ('a \<Rightarrow> js_error + 'b) \<Rightarrow> js_error + 'b" where
  "bind_err m f = (case m of Inl e \<Rightarrow> Inl e | Inr x \<Rightarrow> f x)"

section \<open>Web Vitals: \<open>src/webVitals.ts\<close>\<close>

record WebVitalsMetrics =
  FCP :: "real option"
  LCP :: "real option"
  CLS :: "real option"
  FID :: "real option"
  TTI :: "real option"
  TBT :: "real option"
  TTFB :: "real option"

text \<open>The keys of a \<open>WebVitalsMetrics\<close> object, in the order of the object literal that
  \<open>extractWebVitals\<close> builds, and the read \<open>metrics[key]\<close>.\<close>

datatype metric_key = K_FCP | K_LCP | K_CLS | K_FID | K_TTI | K_TBT | K_TTFB

fun key_name :: "metric_key \<Rightarrow> string" where
  "key_name K_FCP = ''FCP''"
| "key_name K_LCP = ''LCP''"
| "key_name K_CLS = ''CLS''"
| "key_name K_FID = ''FID''"
| "key_name K_TTI = ''TTI''"
| "key_name K_TBT = ''TBT''"
| "key_name K_TTFB = ''TTFB''"

fun get_metric :: "WebVitalsMetrics \<Rightarrow> metric_key \<Rightarrow> real option" where
  "get_metric m K_FCP = FCP m"
| "get_metric m K_LCP = LCP m"
| "get_metric m K_CLS = CLS m"
| "get_metric m K_FID = FID m"
| "get_metric m K_TTI = TTI m"
| "get_metric m K_TBT = TBT m"
| "get_metric m K_TTFB = TTFB m"

definition metric_keys :: "metric_key list" where
  "metric_keys = [K_FCP, K_LCP, K_CLS, K_FID, K_TTI, K_TBT, K_TTFB]"

subsection \<open>The audit result and \<open>extractWebVitals\<close>\<close>

text \<open>An audit record of the engine's report: \<open>score\<close> is \<open>number | null\<close>,
  \<open>numericValue\<close> is a number or \<open>undefined\<close>. The report object (\<open>lhr\<close>) has an optional
  \<open>audits\<close> dictionary and a \<open>categories\<close> dictionary; a category object is represented by
  its \<open>score\<close>, the only property the program reads.\<close>

record audit =
  score :: "real option"
  numericValue :: "real option"

record lhr =
  audits :: "(string \<times> audit) list option"
  categories :: "(string \<times> real) list"

text \<open>Reading a property of \<open>undefined\<close> throws a \<open>TypeError\<close>; an audit that is missing
  from the dictionary is \<open>undefined\<close>.\<close>

definition read_score :: "audit option \<Rightarrow> js_error + real option" where
  "read_score a = (case a of None \<Rightarrow> Inl TypeError | Some x \<Rightarrow> Inr (score x))"

definition read_numericValue :: "audit option \<Rightarrow> js_error + real option" where
  "read_numericValue a = (case a of None \<Rightarrow> Inl TypeError | Some x \<Rightarrow> Inr (numericValue x))"

definition getMetricValue :: "audit option \<Rightarrow> js_error + real option" where
  "getMetricValue a =
     (if a = None then Inr None
      else bind_err (read_score a) (\<lambda>s.
        if s = None then Inr None
        else bind_err (read_numericValue a) (\<lambda>v.
          if v \<noteq> None then Inr v else Inr None)))"

definition extractWebVitals :: "lhr \<Rightarrow> js_error + WebVitalsMetrics" where
  "extractWebVitals l =
     (let au = (case audits l of None \<Rightarrow> [] | Some d \<Rightarrow> d) in
      bind_err (getMetricValue (map_of au ''first-contentful-paint'')) (\<lambda>fcp.
      bind_err (getMetricValue (map_of au ''largest-contentful-paint'')) (\<lambda>lcp.
      bind_err (getMetricValue (map_of au ''cumulative-layout-shift'')) (\<lambda>cls.
      bind_err (getMetricValue (map_of au ''max-potential-fid'')) (\<lambda>fid.
      bind_err (getMetricValue (map_of au ''interactive'')) (\<lambda>tti.
      bind_err (getMetricValue (map_of au ''total-blocking-time'')) (\<lambda>tbt.
      bind_err (getMetricValue (map_of au ''server-response-time'')) (\<lambda>ttfb.
      Inr \<lparr>FCP = fcp, LCP = lcp, CLS = cls, FID = fid, TTI = tti, TBT = tbt,
           TTFB = ttfb\<rparr>))))))))"

text \<open>The audit identifier that \<open>extractWebVitals\<close> reads for each key.\<close>

fun audit_id :: "metric_key \<Rightarrow> string" where
  "audit_id K_FCP = ''first-contentful-paint''"
| "audit_id K_LCP = ''largest-contentful-paint''"
| "audit_id K_CLS = ''cumulative-layout-shift''"
| "audit_id K_FID = ''max-potential-fid''"
| "audit_id K_TTI = ''interactive''"
| "audit_id K_TBT = ''total-blocking-time''"
| "audit_id K_TTFB = ''server-response-time''"

definition audit_of :: "lhr \<Rightarrow> string \<Rightarrow> audit option" where
  "audit_of l n = (case audits l of None \<Rightarrow> None | Some d \<Rightarrow> map_of d n)"

subsection \<open>\<open>evaluateWebVitals\<close>\<close>

text \<open>The three evaluation strings of the source are Chinese literals; in the order in
  which every \<open>if\<close> chain of \<open>evaluateWebVitals\<close> assigns them they stand for good,
  needs improvement and poor.\<close>

datatype band = Good | NeedsImprovement | Poor

definition evaluateWebVitals :: "WebVitalsMetrics \<Rightarrow> (string \<times> band) list" where
  "evaluateWebVitals metrics =
     (let evaluations = [];
          evaluations = (case FCP metrics of None \<Rightarrow> evaluations | Some v \<Rightarrow>
            AList.update ''FCP''
              (if v < 1800 then Good else if v < 3000 then NeedsImprovement else Poor)
              evaluations);
          evaluations = (case LCP metrics of None \<Rightarrow> evaluations | Some v \<Rightarrow>
            AList.update ''LCP''
              (if v < 2500 then Good else if v < 4000 then NeedsImprovement else Poor)
              evaluations);
          evaluations = (case CLS metrics of None \<Rightarrow> evaluations | Some v \<Rightarrow>
            AList.update ''CLS''
              (if v < 0.1 then Good else if v < 0.25 then NeedsImprovement else Poor)
              evaluations);
          evaluations = (case FID metrics of None \<Rightarrow> evaluations | Some v \<Rightarrow>
            AList.update ''FID''
              (if v < 100 then Good else if v < 300 then NeedsImprovement else Poor)
              evaluations);
          evaluations = (case TTI metrics of None \<Rightarrow> evaluations | Some v \<Rightarrow>
            AList.update ''TTI''
              (if v < 3800 then Good else if v < 7300 then NeedsImprovement else Poor)
              evaluations);
          evaluations = (case TBT metrics of None \<Rightarrow> evaluations | Some v \<Rightarrow>
            AList.update ''TBT''
              (if v < 200 then Good else if v < 600 then NeedsImprovement else Poor)
              evaluations);
          evaluations = (case TTFB metrics of None \<Rightarrow> evaluations | Some v \<Rightarrow>
            AList.update ''TTFB''
              (if v < 800 then Good else if v < 1800 then NeedsImprovement else Poor)
              evaluations)
      in evaluations)"

text \<open>The threshold table as the specification words it: for each metric the lower and
  the upper bound.\<close>

fun spec_lower :: "metric_key \<Rightarrow> real" where
  "spec_lower K_FCP = 1800"
| "spec_lower K_LCP = 2500"
| "spec_lower K_CLS = 0.1"
| "spec_lower K_FID = 100"
| "spec_lower K_TTI = 3800"
| "spec_lower K_TBT = 200"
| "spec_lower K_TTFB = 800"

fun spec_upper :: "metric_key \<Rightarrow> real" where
  "spec_upper K_FCP = 3000"
| "spec_upper K_LCP = 4000"
| "spec_upper K_CLS = 0.25"
| "spec_upper K_FID = 300"
| "spec_upper K_TTI = 7300"
| "spec_upper K_TBT = 600"
| "spec_upper K_TTFB = 1800"

subsection \<open>\<open>generateWebVitalsRecommendations\<close>\<close>

text \<open>The advice catalogue consists of Chinese string literals; each constructor stands
  for one literal. Two literals occur under two metrics each (the first of the FCP list
  is the third of the LCP list, the first of the FID list is the second of the TBT
  list). A read \<open>evaluations.FCP\<close> of a missing key is \<open>undefined\<close>, which differs from
  every string.\<close>

datatype advice =
  OptimizeServerResponseTime | RemoveRenderBlockingResources | OptimizeCriticalRenderingPath
| OptimizeLargestElementLoading | UseImageLazyLoading | PreloadKeyResources
| SetExplicitMediaDimensions | AvoidInsertingAboveContent | UseTransformAnimations
| ReduceJavaScriptExecutionTime | SplitLongTasks | OptimizeEventHandlers
| ReduceJavaScriptSize | RemoveUnusedJavaScript | UseCodeSplitting | DeferNonCriticalJavaScript
| ReduceMainThreadWork | OptimizeThirdPartyScripts
| OptimizeServerProcessingTime | UseCDN | PreconnectToRequiredOrigins | UseCaching

definition generateWebVitalsRecommendations ::
  "WebVitalsMetrics \<Rightarrow> (string \<times> band) list \<Rightarrow> (string \<times> advice list) list" where
  "generateWebVitalsRecommendations metrics evaluations =
     (let recommendations = [];
          recommendations =
            (if FCP metrics \<noteq> None \<and> map_of evaluations ''FCP'' \<noteq> Some Good
             then AList.update ''FCP''
                    [OptimizeServerResponseTime, RemoveRenderBlockingResources,
                     OptimizeCriticalRenderingPath] recommendations
             else recommendations);
          recommendations =
            (if LCP metrics \<noteq> None \<and> map_of evaluations ''LCP'' \<noteq> Some Good
             then AList.update ''LCP''
                    [OptimizeLargestElementLoading, UseImageLazyLoading,
                     OptimizeServerResponseTime, PreloadKeyResources] recommendations
             else recommendations);
          recommendations =
            (if CLS metrics \<noteq> None \<and> map_of evaluations ''CLS'' \<noteq> Some Good
             then AList.update ''CLS''
                    [SetExplicitMediaDimensions, AvoidInsertingAboveContent,
                     UseTransformAnimations] recommendations
             else recommendations);
          recommendations =
            (if FID metrics \<noteq> None \<and> map_of evaluations ''FID'' \<noteq> Some Good
             then AList.update ''FID''
                    [ReduceJavaScriptExecutionTime, SplitLongTasks, OptimizeEventHandlers]
                    recommendations
             else recommendations);
          recommendations =
            (if TTI metrics \<noteq> None \<and> map_of evaluations ''TTI'' \<noteq> Some Good
             then AList.update ''TTI''
                    [ReduceJavaScriptSize, RemoveUnusedJavaScript, UseCodeSplitting,
                     DeferNonCriticalJavaScript] recommendations
             else recommendations);
          recommendations =
            (if TBT metrics \<noteq> None \<and> map_of evaluations ''TBT'' \<noteq> Some Good
             then AList.update ''TBT''
                    [ReduceMainThreadWork, ReduceJavaScriptExecutionTime,
                     OptimizeThirdPartyScripts] recommendations
             else recommendations);
          recommendations =
            (if TTFB metrics \<noteq> None \<and> map_of evaluations ''TTFB'' \<noteq> Some Good
             then AList.update ''TTFB''
                    [OptimizeServerProcessingTime, UseCDN, PreconnectToRequiredOrigins,
                     UseCaching] recommendations
             else recommendations)
      in recommendations)"

section \<open>Comparison report: \<open>src/comparisonReporter.ts\<close>\<close>

text \<open>The module that the runner imports as \<open>./comparisonReporter\<close>
  (\<open>src/unnamed/part_000\<close>).\<close>

subsection \<open>Arithmetic that can leave the finite numbers\<close>

text \<open>The quotient of two finite numbers in JavaScript: a zero divisor gives \<open>NaN\<close> or an
  infinity, never an exception. The sign of a zero is not modelled. Multiplication,
  \<open>Math.abs\<close> and \<open>>\<close> are defined on such results as JavaScript defines them.\<close>

datatype js_number = Finite real | PosInfinity | NegInfinity | NaN

definition js_div :: "real \<Rightarrow> real \<Rightarrow> js_number" where
  "js_div x y =
     (if y \<noteq> 0 then Finite (x / y)
      else if x = 0 then NaN else if 0 < x then PosInfinity else NegInfinity)"

fun js_times :: "js_number \<Rightarrow> real \<Rightarrow> js_number" where
  "js_times (Finite r) c = Finite (r * c)"
| "js_times NaN c = NaN"
| "js_times PosInfinity c = (if c = 0 then NaN else if 0 < c then PosInfinity else NegInfinity)"
| "js_times NegInfinity c = (if c = 0 then NaN else if 0 < c then NegInfinity else PosInfinity)"

fun js_abs :: "js_number \<Rightarrow> js_number" where
  "js_abs (Finite r) = Finite \<bar>r\<bar>"
| "js_abs PosInfinity = PosInfinity"
| "js_abs NegInfinity = PosInfinity"
| "js_abs NaN = NaN"

fun js_gt :: "js_number \<Rightarrow> real \<Rightarrow> bool" where
  "js_gt (Finite r) c = (r > c)"
| "js_gt PosInfinity c = True"
| "js_gt NegInfinity c = False"
| "js_gt NaN c = False"

text \<open>\<open>x || 0\<close> for a number that may be \<open>undefined\<close>: a missing value and the falsy
  number \<open>0\<close> both give \<open>0\<close>.\<close>

definition or_zero :: "real option \<Rightarrow> real" where
  "or_zero x = (case x of None \<Rightarrow> 0 | Some v \<Rightarrow> if v = 0 then 0 else v)"

subsection \<open>Score differences\<close>

definition calculateScoreDiffs ::
  "(string \<times> real) list \<Rightarrow> (string \<times> real) list \<Rightarrow> (string \<times> real) list" where
  "calculateScoreDiffs baselineScores currentScores =
     fold (\<lambda>(category, score) diffs.
        let currentScore = or_zero (map_of currentScores category)
        in AList.update category (currentScore - score) diffs)
       baselineScores []"

text \<open>The rows of the score table, which \<open>generateComparisonHtml\<close> produces by mapping over
  \<open>Object.entries(data.baseline.scores)\<close>. A row keeps the values that the template prints;
  the rendering of numbers as text (\<open>toFixed\<close>) is not modelled.\<close>

record score_row =
  sr_category :: string
  sr_score :: real
  sr_currentScore :: real
  sr_diff :: real
  sr_diffClass :: string
  sr_diffPrefix :: string

definition score_rows :: "(string \<times> real) list \<Rightarrow> (string \<times> real) list \<Rightarrow> score_row list" where
  "score_rows baselineScores currentScores =
     map (\<lambda>(category, score).
        let currentScore = or_zero (map_of currentScores category);
            diff = currentScore - score;
            diffClass = (if diff > 1 then ''improvement''
                         else if diff < - 1 then ''regression'' else ''neutral'');
            diffPrefix = (if diff > 0 then ''+'' else '''')
        in \<lparr>sr_category = category, sr_score = score, sr_currentScore = currentScore,
            sr_diff = diff, sr_diffClass = diffClass, sr_diffPrefix = diffPrefix\<rparr>)
       baselineScores"

subsection \<open>Web Vitals differences\<close>

record web_vital_diff =
  absolute :: real
  percentage :: js_number
  improved :: bool

text \<open>The body of the loop of \<open>calculateWebVitalsDiffs\<close> for one key, and the loop over
  \<open>Object.keys(baselineWebVitals)\<close>; \<open>acc\<close> is the dictionary \<open>diffs\<close> built so far.\<close>

definition diff_step ::
  "WebVitalsMetrics \<Rightarrow> WebVitalsMetrics \<Rightarrow> metric_key \<Rightarrow>
   (string \<times> web_vital_diff) list \<Rightarrow> (string \<times> web_vital_diff) list" where
  "diff_step baselineWebVitals currentWebVitals key acc =
     (case (get_metric baselineWebVitals key, get_metric currentWebVitals key) of
        (Some baselineValue, Some currentValue) \<Rightarrow>
          let absoluteDiff = currentValue - baselineValue;
              percentageDiff = (if baselineValue \<noteq> 0
                                then js_times (js_div absoluteDiff baselineValue) 100
                                else Finite 0);
              improved = (absoluteDiff < 0)
          in AList.update (key_name key)
               \<lparr>absolute = absoluteDiff, percentage = percentageDiff, improved = improved\<rparr>
               acc
      | _ \<Rightarrow> acc)"

definition calculateWebVitalsDiffs ::
  "WebVitalsMetrics \<Rightarrow> WebVitalsMetrics \<Rightarrow> (string \<times> web_vital_diff) list" where
  "calculateWebVitalsDiffs baselineWebVitals currentWebVitals =
     fold (diff_step baselineWebVitals currentWebVitals) metric_keys []"

subsection \<open>Rows of the Web Vitals table\<close>

text \<open>\<open>generateWebVitalsComparisonRows\<close> appends one table row to a string for every key
  of \<open>webVitalsInfo\<close> that passes the guard. The model returns the list of rows; a row keeps
  the values that the template prints, before they are formatted as text.\<close>

definition webVitalsInfo :: "(metric_key \<times> string \<times> string) list" where
  "webVitalsInfo =
     [(K_FCP, ''First Contentful Paint'', ''ms''),
      (K_LCP, ''Largest Contentful Paint'', ''ms''),
      (K_CLS, ''Cumulative Layout Shift'', ''''),
      (K_FID, ''First Input Delay'', ''ms''),
      (K_TTI, ''Time to Interactive'', ''ms''),
      (K_TBT, ''Total Blocking Time'', ''ms''),
      (K_TTFB, ''Time to First Byte'', ''ms'')]"

record vitals_row =
  vr_key :: string
  vr_name :: string
  vr_unit :: string
  vr_baselineValue :: real
  vr_currentValue :: real
  vr_diff :: real
  vr_percentDiff :: js_number
  vr_diffClass :: string
  vr_diffPrefix :: string

definition row_step ::
  "WebVitalsMetrics \<Rightarrow> WebVitalsMetrics \<Rightarrow> metric_key \<times> string \<times> string \<Rightarrow>
   vitals_row list \<Rightarrow> vitals_row list" where
  "row_step baselineWebVitals currentWebVitals entry rows =
     (case entry of (key, name, unit) \<Rightarrow>
       (case (get_metric baselineWebVitals key, get_metric currentWebVitals key) of
          (Some baselineValue, Some currentValue) \<Rightarrow>
            let diff = currentValue - baselineValue;
                percentDiff = (if baselineValue \<noteq> 0
                               then js_times (js_div diff baselineValue) 100
                               else Finite 0);
                diffClass = (if diff < 0 then ''improvement''
                             else if diff > 0 then ''regression'' else ''neutral'');
                diffPrefix = (if diff < 0 then '''' else ''+'')
            in rows @ [\<lparr>vr_key = key_name key, vr_name = name, vr_unit = unit,
                        vr_baselineValue = baselineValue, vr_currentValue = currentValue,
                        vr_diff = diff, vr_percentDiff = percentDiff,
                        vr_diffClass = diffClass, vr_diffPrefix = diffPrefix\<rparr>]
        | _ \<Rightarrow> rows))"

definition generateWebVitalsComparisonRows ::
  "WebVitalsMetrics \<Rightarrow> WebVitalsMetrics \<Rightarrow> vitals_row list" where
  "generateWebVitalsComparisonRows baselineWebVitals currentWebVitals =
     fold (row_step baselineWebVitals currentWebVitals) webVitalsInfo []"

subsection \<open>Summary counts\<close>

text \<open>\<open>generateSummaryStats\<close> runs two counting loops and prints the four counters into
  its markup; the model returns the counters.\<close>

record summary_stats =
  stat_improvedScores :: nat
  stat_regressedScores :: nat
  stat_improvedWebVitals :: nat
  stat_regressedWebVitals :: nat

definition count_score :: "real \<Rightarrow> nat \<times> nat \<Rightarrow> nat \<times> nat" where
  "count_score diff c =
     (case c of (improvedScores, regressedScores) \<Rightarrow>
        if diff > 1 then (improvedScores + 1, regressedScores)
        else if diff < - 1 then (improvedScores, regressedScores + 1)
        else (improvedScores, regressedScores))"

definition count_vital :: "web_vital_diff \<Rightarrow> nat \<times> nat \<Rightarrow> nat \<times> nat" where
  "count_vital diff c =
     (case c of (improvedWebVitals, regressedWebVitals) \<Rightarrow>
        if improved diff then (improvedWebVitals + 1, regressedWebVitals)
        else if \<not> improved diff \<and> js_gt (js_abs (percentage diff)) 1
          then (improvedWebVitals, regressedWebVitals + 1)
        else (improvedWebVitals, regressedWebVitals))"

definition generateSummaryStats ::
  "(string \<times> real) list \<Rightarrow> (string \<times> web_vital_diff) list \<Rightarrow> summary_stats" where
  "generateSummaryStats scoreDiffs webVitalsDiffs =
     (let (improvedScores, regressedScores) = fold count_score (map snd scoreDiffs) (0, 0);
          (improvedWebVitals, regressedWebVitals) =
             fold count_vital (map snd webVitalsDiffs) (0, 0)
      in \<lparr>stat_improvedScores = improvedScores, stat_regressedScores = regressedScores,
          stat_improvedWebVitals = improvedWebVitals,
          stat_regressedWebVitals = regressedWebVitals\<rparr>)"

section \<open>The runner: \<open>src/index.ts\<close>\<close>

text \<open>The module that imports the three others and ends with the call of
  \<open>runLighthouseTest\<close>; its text follows the README in \<open>src/README.md\<close>.\<close>

subsection \<open>Data\<close>

text \<open>Time stamps (\<open>new Date()\<close>) are left out of the records: they come from the clock and
  no property below reads them. \<open>testCount\<close> is the number of iterations of the loop
  \<open>for (let i = 1; i <= config.testCount; i++)\<close>.\<close>

record TestConfig =
  cfg_url :: string
  testCount :: nat
  cfg_categories :: "string list"
  cfg_device :: string
  compareUrl :: "string option"
  saveHistory :: bool

record WebVitalsResult =
  wvr_url :: string
  metrics :: WebVitalsMetrics
  wvr_device :: string

record TestResult =
  url :: string
  device :: string
  scores :: "(string \<times> real) list"
  webVitals :: WebVitalsMetrics

text \<open>The \<open>ReportData\<close> of \<open>src/reportGenerator.ts\<close>, from which the detailed report is
  rendered, and the content of the comparison report: the summary counters and the rows
  of its two tables.\<close>

record ReportData =
  rd_url :: string
  rd_device :: string
  rd_scores :: "(string \<times> real) list"
  rd_webVitals :: WebVitalsMetrics
  evaluations :: "(string \<times> band) list"
  recommendations :: "(string \<times> advice list) list"

record comparison_report =
  cr_summary :: summary_stats
  cr_scoreRows :: "score_row list"
  cr_vitalsRows :: "vitals_row list"

subsection \<open>External collaborators and effects\<close>

text \<open>
  The audit engine, the browser and the file system are outside the program. A \<open>world\<close>
  fixes how they answer: whether launching and killing the browser fail, what the
  \<open>n\<close>-th call of the audit engine returns (a report or a rejection), which of the
  program's file and browser operations throw, and how many history entries are read
  back from the history directory.

  The program's observable behaviour is a list of events in the order in which they
  happen. A computation returns its result, or the exception it raises, together with
  the events it produced up to that point.
\<close>

datatype io_step =
  EnsureDirs | WriteRunReport nat | WriteWebVitals nat | WriteIssues nat | Screenshot
| WriteHistory | ReadHistoryDir | WriteTrendReport | WriteDetailedReport
| WriteComparisonReport

record world =
  launch_fails :: bool
  lighthouse :: "string \<Rightarrow> nat \<Rightarrow> js_error + lhr"
  io_fails :: "io_step \<Rightarrow> bool"
  history_count :: nat
  kill_fails :: bool

datatype event =
  Audit string nat               \<comment> \<open>the audit engine was called: URL and number of the call\<close>
| Done io_step                   \<comment> \<open>a file or browser operation completed\<close>
| DetailedReport ReportData      \<comment> \<open>the detailed report was written\<close>
| ComparisonReport comparison_report  \<comment> \<open>the comparison report was written\<close>
| ErrorLogged js_error           \<comment> \<open>\<open>logger.error\<close> in the \<open>catch\<close> block\<close>
| ChromeKilled                   \<comment> \<open>\<open>chrome.kill()\<close> in the \<open>finally\<close> block completed\<close>
| FailurePrinted js_error        \<comment> \<open>\<open>console.error\<close> in the top-level \<open>catch\<close>\<close>

type_synonym 'a io = "(js_error + 'a) \<times> event list"

definition io_return :: "'a \<Rightarrow> 'a io" where
  "io_return x = (Inr x, [])"

definition io_lift :: "js_error + 'a \<Rightarrow> 'a io" where
  "io_lift m = (m, [])"

definition io_bind :: "'a io \<Rightarrow> ('a \<Rightarrow> 'b io) \<Rightarrow> 'b io" where
  "io_bind m f =
     (case m of
        (Inl e, evs) \<Rightarrow> (Inl e, evs)
      | (Inr x, evs) \<Rightarrow> (case f x of (r, evs') \<Rightarrow> (r, evs @ evs')))"

definition attempt :: "world \<Rightarrow> io_step \<Rightarrow> event \<Rightarrow> unit io" where
  "attempt w step ev = (if io_fails w step then (Inl ExternalFailure, []) else (Inr (), [ev]))"

definition call_lighthouse :: "world \<Rightarrow> string \<Rightarrow> nat \<Rightarrow> lhr io" where
  "call_lighthouse w u n = (lighthouse w u n, [Audit u n])"

subsection \<open>One audit run\<close>

text \<open>The accessibility issues that the loop body collects from the audits; only whether
  there are any decides an effect (a file is written).\<close>

definition accessibilityIssues :: "(string \<times> audit) list \<Rightarrow> (string \<times> audit) list" where
  "accessibilityIssues d =
     filter (\<lambda>(id, a). prefix ''accessibility/'' id \<and> score a \<noteq> Some 1 \<and> score a \<noteq> None) d"

text \<open>Score collection: for every configured category that the report has, the score
  rescaled by 100 is pushed onto the category's list. \<open>scores[category]\<close> is \<open>undefined\<close>
  for a category that is not a key of the initial dictionary, and \<open>push\<close> on it throws.\<close>

definition initial_scores :: "(string \<times> real list) list" where
  "initial_scores =
     [(''performance'', []), (''accessibility'', []), (''best-practices'', []), (''seo'', [])]"

fun collect_scores ::
  "string list \<Rightarrow> lhr \<Rightarrow> (string \<times> real list) list \<Rightarrow> js_error + (string \<times> real list) list"
  where
  "collect_scores [] l sc = Inr sc"
| "collect_scores (category # cats) l sc =
     (case map_of (categories l) category of
        None \<Rightarrow> collect_scores cats l sc
      | Some s \<Rightarrow>
          (case map_of sc category of
             None \<Rightarrow> Inl TypeError
           | Some xs \<Rightarrow> collect_scores cats l (AList.update category (xs @ [s * 100]) sc)))"

record loop_state =
  ls_scores :: "(string \<times> real list) list"
  webVitalsResults :: "WebVitalsResult list"

definition run_once :: "world \<Rightarrow> TestConfig \<Rightarrow> nat \<Rightarrow> loop_state \<Rightarrow> loop_state io" where
  "run_once w config i st =
     io_bind (call_lighthouse w (cfg_url config) i) (\<lambda>runnerResult.
     io_bind (attempt w (WriteRunReport i) (Done (WriteRunReport i))) (\<lambda>_.
     io_bind (io_lift (extractWebVitals runnerResult)) (\<lambda>webVitalsMetrics.
     let webVitalsResult = \<lparr>wvr_url = cfg_url config, metrics = webVitalsMetrics,
                             wvr_device = cfg_device config\<rparr>;
         results = webVitalsResults st @ [webVitalsResult]
     in
     io_bind (attempt w (WriteWebVitals i) (Done (WriteWebVitals i))) (\<lambda>_.
     io_bind (case audits runnerResult of
                None \<Rightarrow> io_return ()
              | Some d \<Rightarrow> if length (accessibilityIssues d) > 0
                          then attempt w (WriteIssues i) (Done (WriteIssues i))
                          else io_return ()) (\<lambda>_.
     io_bind (io_lift (collect_scores (cfg_categories config) runnerResult (ls_scores st)))
       (\<lambda>sc.
     io_return \<lparr>ls_scores = sc, webVitalsResults = results\<rparr>))))))"

fun run_loop :: "world \<Rightarrow> TestConfig \<Rightarrow> nat list \<Rightarrow> loop_state \<Rightarrow> loop_state io" where
  "run_loop w config [] st = io_return st"
| "run_loop w config (i # is) st =
     io_bind (run_once w config i st) (\<lambda>st'. run_loop w config is st')"

subsection \<open>Aggregation\<close>

text \<open>The averages: for every configured category with at least one collected score, the
  sum of the scores (a \<open>reduce\<close> from 0) divided by their number. The divisor is not
  zero under the guard. \<open>scores[category].length\<close> throws for a category that is not a
  key of the dictionary.\<close>

fun avg_scores ::
  "string list \<Rightarrow> (string \<times> real list) list \<Rightarrow> (string \<times> real) list \<Rightarrow>
   js_error + (string \<times> real) list" where
  "avg_scores [] sc avgScores = Inr avgScores"
| "avg_scores (category # cats) sc avgScores =
     (case map_of sc category of
        None \<Rightarrow> Inl TypeError
      | Some xs \<Rightarrow>
          if length xs > 0
          then let avgScore = foldl (\<lambda>sum score. sum + score) 0 xs / real (length xs)
               in avg_scores cats sc (AList.update category avgScore avgScores)
          else avg_scores cats sc avgScores)"

text \<open>\<open>webVitalsResults[webVitalsResults.length - 1].metrics\<close>: on an empty array the
  element is \<open>undefined\<close> and the property read throws.\<close>

definition last_metrics :: "WebVitalsResult list \<Rightarrow> js_error + WebVitalsMetrics" where
  "last_metrics rs = (if rs = [] then Inl TypeError else Inr (metrics (last rs)))"

text \<open>The first part of the \<open>try\<close> block: directories, the loop, the averages, the
  screenshot and the \<open>testResult\<close>.\<close>

definition run_and_aggregate ::
  "world \<Rightarrow> TestConfig \<Rightarrow> (TestResult \<times> WebVitalsResult list) io" where
  "run_and_aggregate w config =
     io_bind (attempt w EnsureDirs (Done EnsureDirs)) (\<lambda>_.
     io_bind (run_loop w config [1..<Suc (testCount config)]
                \<lparr>ls_scores = initial_scores, webVitalsResults = []\<rparr>) (\<lambda>st.
     io_bind (io_lift (avg_scores (cfg_categories config) (ls_scores st) [])) (\<lambda>avgScores.
     io_bind (attempt w Screenshot (Done Screenshot)) (\<lambda>_.
     io_bind (io_lift (last_metrics (webVitalsResults st))) (\<lambda>lastMetrics.
     io_return (\<lparr>url = cfg_url config, device = cfg_device config, scores = avgScores,
                  webVitals = lastMetrics\<rparr>, webVitalsResults st))))))"

subsection \<open>Reports\<close>

text \<open>\<open>generateDetailedReport\<close> of \<open>src/reportGenerator.ts\<close>: the report data, then the
  file.\<close>

definition generateDetailedReport ::
  "world \<Rightarrow> TestResult \<Rightarrow> WebVitalsResult list \<Rightarrow> unit io" where
  "generateDetailedReport w results rs =
     io_bind (io_lift (last_metrics rs)) (\<lambda>m.
     let reportData = \<lparr>rd_url = url results, rd_device = device results,
                        rd_scores = scores results, rd_webVitals = m,
                        evaluations = evaluateWebVitals m,
                        recommendations =
                          generateWebVitalsRecommendations m (evaluateWebVitals m)\<rparr>
     in attempt w WriteDetailedReport (DetailedReport reportData))"







subsection \<open>\<open>runLighthouseTest\<close> and the process\<close>




subsection \<open>Events of the audit loop\<close>


subsection \<open>The aggregation rule of the specification\<close>

text \<open>What one run contributes to the scores of a category, as the specification words
  it: the score rescaled from [0,1] to [0,100] when the run has the category, nothing
  otherwise; and the scores of a category over a sequence of runs.\<close>

definition spec_run_scores :: "string \<Rightarrow> lhr \<Rightarrow> real list" where
  "spec_run_scores c l = (case map_of (categories l) c of None \<Rightarrow> [] | Some s \<Rightarrow> [s * 100])"

definition spec_present_scores :: "string \<Rightarrow> lhr list \<Rightarrow> real list" where
  "spec_present_scores c ls = concat (map (spec_run_scores c) ls)"

section \<open>Example inputs\<close>

definition m0 :: WebVitalsMetrics where
  "m0 = \<lparr>FCP = Some 1800, LCP = Some 4000, CLS = Some 0.1, FID = None, TTI = Some 100,
        TBT = None, TTFB = Some 1799.5\<rparr>"

definition l0 :: lhr where
  "l0 = \<lparr>audits = Some
           [(''largest-contentful-paint'', \<lparr>score = Some 0.5, numericValue = Some 2500\<rparr>),
            (''interactive'', \<lparr>score = None, numericValue = Some 3000\<rparr>),
            (''total-blocking-time'', \<lparr>score = Some 1, numericValue = None\<rparr>)],
         categories = []\<rparr>"

definition b1 :: WebVitalsMetrics where
  "b1 = \<lparr>FCP = Some 1800, LCP = Some 4000, CLS = Some 0.1, FID = None, TTI = Some 100,
        TBT = Some 0, TTFB = None\<rparr>"

definition c1 :: WebVitalsMetrics where
  "c1 = \<lparr>FCP = Some 1900, LCP = Some 2500, CLS = None, FID = None, TTI = Some 100,
        TBT = Some 5, TTFB = Some 700\<rparr>"

text \<open>A report with a performance score \<open>p\<close> and a Largest Contentful Paint of \<open>v\<close>; a
  world in which every operation succeeds and three runs score 0.8, 1 and 0.6; a world
  in which the second audit is rejected; and a configuration of three runs with a
  comparison URL.\<close>

definition lh :: "real \<Rightarrow> real \<Rightarrow> lhr" where
  "lh p v =
     \<lparr>audits = Some [(''largest-contentful-paint'',
                       \<lparr>score = Some 0.5, numericValue = Some v\<rparr>)],
      categories = [(''performance'', p)]\<rparr>"

definition w_ok :: world where
  "w_ok = \<lparr>launch_fails = False,
          lighthouse = (\<lambda>u n. if n = 1 then Inr (lh 0.8 100)
                               else if n = 2 then Inr (lh 1 200) else Inr (lh 0.6 300)),
          io_fails = (\<lambda>_. False), history_count = 2, kill_fails = False\<rparr>"


definition cfg0 :: TestConfig where
  "cfg0 = \<lparr>cfg_url = ''u'', testCount = 3,
           cfg_categories = [''performance'', ''accessibility'', ''best-practices'', ''seo''],
           cfg_device = ''Desktop'', compareUrl = Some ''v'', saveHistory = True\<rparr>"



section \<open>Properties of the Web Vitals module\<close>

lemma bind_err_Inr [simp]: "bind_err (Inr x) f = f x"
  by (simp add: bind_err_def)

lemma bind_err_Inl [simp]: "bind_err (Inl e) f = Inl e"
  by (simp add: bind_err_def)

lemma key_name_inject [simp]: "key_name k = key_name k' \<longleftrightarrow> k = k'"
  by (cases k; cases k'; simp)

subsection \<open>The evaluator\<close>

text \<open>One guarded assignment \<open>if (x !== null) r[k] = f(x)\<close>: its effect on a lookup and
  on the set of keys.\<close>

lemma map_of_assign:
  "map_of (case x of None \<Rightarrow> al | Some v \<Rightarrow> AList.update k (f v) al) k' =
     (if k' = k \<and> x \<noteq> None then map_option f x else map_of al k')"
  by (cases x) (simp_all add: update_conv')

lemma keys_assign:
  "fst ` set (case x of None \<Rightarrow> al | Some v \<Rightarrow> AList.update k (f v) al) =
     (if x = None then {} else {k}) \<union> fst ` set al"
  by (cases x) (simp_all add: dom_update)

lemma map_of_evaluateWebVitals:
  "map_of (evaluateWebVitals m) (key_name k) =
     map_option (\<lambda>v. if v < spec_lower k then Good
                      else if v < spec_upper k then NeedsImprovement else Poor)
       (get_metric m k)"
  unfolding evaluateWebVitals_def Let_def
  by (cases k) (simp_all add: map_of_assign cong: if_cong)

lemma keys_evaluateWebVitals:
  "fst ` set (evaluateWebVitals m) =
     (if TTFB m = None then {} else {''TTFB''}) \<union>
     ((if TBT m = None then {} else {''TBT''}) \<union>
     ((if TTI m = None then {} else {''TTI''}) \<union>
     ((if FID m = None then {} else {''FID''}) \<union>
     ((if CLS m = None then {} else {''CLS''}) \<union>
     ((if LCP m = None then {} else {''LCP''}) \<union>
     ((if FCP m = None then {} else {''FCP''}) \<union> {}))))))"
  unfolding evaluateWebVitals_def Let_def
  by (simp only: keys_assign list.set image_empty)

lemma keys_evaluateWebVitals_subset:
  "fst ` set (evaluateWebVitals m) \<subseteq> key_name ` set metric_keys"
  unfolding keys_evaluateWebVitals metric_keys_def
  by (intro Un_least) simp_all

lemma spec_lower_less_upper: "spec_lower k < spec_upper k"
  by (cases k) simp_all

text \<open>
  Claim C1. For a metric whose value \<open>v\<close> is present, the evaluator's entry under the
  metric's name is good iff \<open>v\<close> is strictly below the lower threshold of the table
  (FCP 1800/3000, LCP 2500/4000, CLS 0.1/0.25, FID 100/300, TTI 3800/7300, TBT 200/600,
  TTFB 800/1800), needs improvement iff \<open>v\<close> is at least the lower and strictly below
  the upper threshold, and poor iff \<open>v\<close> is at least the upper threshold. A value equal
  to the lower threshold is classified needs improvement, a value equal to the upper
  threshold poor.
\<close>

theorem evaluateWebVitals_bands:
  assumes "get_metric m k = Some v"
  shows "\<exists>b. map_of (evaluateWebVitals m) (key_name k) = Some b \<and>
     (b = Good \<longleftrightarrow> v < spec_lower k) \<and>
     (b = NeedsImprovement \<longleftrightarrow> spec_lower k \<le> v \<and> v < spec_upper k) \<and>
     (b = Poor \<longleftrightarrow> spec_upper k \<le> v) \<and>
     (v = spec_lower k \<longrightarrow> b = NeedsImprovement) \<and>
     (v = spec_upper k \<longrightarrow> b = Poor)"
  using assms spec_lower_less_upper [of k]
  by (auto simp: map_of_evaluateWebVitals)

theorem evaluateWebVitals_bands_witness:
  "get_metric m0 K_CLS = Some 0.1 \<and>
   map_of (evaluateWebVitals m0) ''CLS'' = Some NeedsImprovement"
  using evaluateWebVitals_bands [of m0 K_CLS "0.1"]
  by (simp add: m0_def)

text \<open>
  Claim C2. The keys of the evaluator's result are exactly the names of the metrics whose
  value is present: a metric whose value is absent has no entry, and no other key occurs.
\<close>

theorem evaluateWebVitals_keys:
  "fst ` set (evaluateWebVitals m) = {key_name k | k. get_metric m k \<noteq> None}"
proof (rule set_eqI)
  fix s
  show "s \<in> fst ` set (evaluateWebVitals m) \<longleftrightarrow>
      s \<in> {key_name k | k. get_metric m k \<noteq> None}"
  proof (cases "\<exists>k. s = key_name k")
    case True
    then obtain k where s: "s = key_name k" ..
    have "s \<in> fst ` set (evaluateWebVitals m) \<longleftrightarrow> get_metric m k \<noteq> None"
    proof -
      have "key_name k \<notin> fst ` set (evaluateWebVitals m) \<longleftrightarrow>
            map_of (evaluateWebVitals m) (key_name k) = None"
        by (simp only: map_of_eq_None_iff)
      also have "\<dots> \<longleftrightarrow> get_metric m k = None"
        by (simp add: map_of_evaluateWebVitals)
      finally show ?thesis unfolding s by auto
    qed
    then show ?thesis by (auto simp: s)
  next
    case False
    then show ?thesis using keys_evaluateWebVitals_subset [of m] by auto
  qed
qed

subsection \<open>The extractor\<close>

lemma audit_of_alt:
  "map_of (case audits l of None \<Rightarrow> [] | Some d \<Rightarrow> d) n = audit_of l n"
  by (simp add: audit_of_def split: option.split)

lemma getMetricValue_Inr:
  "getMetricValue a =
     Inr (case a of None \<Rightarrow> None
          | Some x \<Rightarrow> if score x = None then None else numericValue x)"
  by (cases a) (auto simp: getMetricValue_def read_score_def read_numericValue_def)

lemma extractWebVitals_Inr:
  "extractWebVitals l =
     Inr \<lparr>FCP = (case audit_of l (audit_id K_FCP) of None \<Rightarrow> None
                   | Some x \<Rightarrow> if score x = None then None else numericValue x),
          LCP = (case audit_of l (audit_id K_LCP) of None \<Rightarrow> None
                   | Some x \<Rightarrow> if score x = None then None else numericValue x),
          CLS = (case audit_of l (audit_id K_CLS) of None \<Rightarrow> None
                   | Some x \<Rightarrow> if score x = None then None else numericValue x),
          FID = (case audit_of l (audit_id K_FID) of None \<Rightarrow> None
                   | Some x \<Rightarrow> if score x = None then None else numericValue x),
          TTI = (case audit_of l (audit_id K_TTI) of None \<Rightarrow> None
                   | Some x \<Rightarrow> if score x = None then None else numericValue x),
          TBT = (case audit_of l (audit_id K_TBT) of None \<Rightarrow> None
                   | Some x \<Rightarrow> if score x = None then None else numericValue x),
          TTFB = (case audit_of l (audit_id K_TTFB) of None \<Rightarrow> None
                   | Some x \<Rightarrow> if score x = None then None else numericValue x)\<rparr>"
  unfolding extractWebVitals_def Let_def audit_of_alt getMetricValue_Inr
  by simp

lemma get_metric_extractWebVitals:
  "extractWebVitals l = Inr r \<Longrightarrow>
   get_metric r k = (case audit_of l (audit_id k) of None \<Rightarrow> None
                     | Some x \<Rightarrow> if score x = None then None else numericValue x)"
  unfolding extractWebVitals_Inr by (cases k) auto

text \<open>
  Claim C3. For every audit-result object the extractor returns a record and does not
  throw. In that record each of the seven metrics is absent exactly when its named audit
  is missing, or the audit's score is null, or the audit's numeric value is undefined;
  otherwise the metric is the audit's numeric value.
\<close>

theorem extractWebVitals_total:
  "\<exists>r. extractWebVitals l = Inr r \<and>
     (\<forall>k. (get_metric r k = None \<longleftrightarrow>
             (audit_of l (audit_id k) = None \<or>
              (\<exists>a. audit_of l (audit_id k) = Some a \<and>
                   (score a = None \<or> numericValue a = None)))) \<and>
          (\<forall>a. audit_of l (audit_id k) = Some a \<and> score a \<noteq> None \<and>
                numericValue a \<noteq> None
             \<longrightarrow> get_metric r k = numericValue a))"
proof -
  obtain r where r: "extractWebVitals l = Inr r"
    using extractWebVitals_Inr by blast
  show ?thesis
    using r by (auto simp: get_metric_extractWebVitals [OF r] split: option.splits)
qed

theorem extractWebVitals_total_witness:
  "extractWebVitals l0 =
     Inr \<lparr>FCP = None, LCP = Some 2500, CLS = None, FID = None, TTI = None, TBT = None,
          TTFB = None\<rparr>"
  using extractWebVitals_total [of l0]
  by (simp add: l0_def extractWebVitals_def getMetricValue_def read_score_def
      read_numericValue_def)

section \<open>Properties of the comparison report\<close>

lemma set_metric_keys: "set metric_keys = UNIV"
  using metric_key.exhaust by (auto simp: metric_keys_def)

lemma fst_set_webVitalsInfo: "fst ` set webVitalsInfo = UNIV"
  using metric_key.exhaust by (auto simp: webVitalsInfo_def)

lemma percentage_finite:
  "(if bv \<noteq> 0 then js_times (js_div d bv) 100 else Finite 0) =
   Finite (if bv \<noteq> 0 then d / bv * 100 else 0)"
  by (simp add: js_div_def)

lemma diff_step_lookup:
  assumes "get_metric b k = Some bv" "get_metric c k = Some cv"
  shows "map_of (diff_step b c k' acc) (key_name k) =
     (if k = k' then Some \<lparr>absolute = cv - bv,
                           percentage = Finite (if bv \<noteq> 0 then (cv - bv) / bv * 100 else 0),
                           improved = (cv - bv < 0)\<rparr>
      else map_of acc (key_name k))"
  using assms
  by (auto simp: diff_step_def percentage_finite update_conv' Let_def split: option.splits)

lemma fold_diff_step_lookup:
  assumes "get_metric b k = Some bv" "get_metric c k = Some cv"
  shows "map_of (fold (diff_step b c) ks acc) (key_name k) =
     (if k \<in> set ks then Some \<lparr>absolute = cv - bv,
                           percentage = Finite (if bv \<noteq> 0 then (cv - bv) / bv * 100 else 0),
                           improved = (cv - bv < 0)\<rparr>
      else map_of acc (key_name k))"
proof (induction ks arbitrary: acc rule: rev_induct)
  case Nil
  show ?case by simp
next
  case (snoc x xs)
  show ?case
    by (simp add: diff_step_lookup [OF assms] snoc.IH)
qed

text \<open>
  Claim C4. For a metric present in the baseline (value \<open>bv\<close>) and in the current result
  (value \<open>cv\<close>), the comparator's entry has absolute delta \<open>cv - bv\<close>; its percentage
  delta is \<open>(cv - bv) / bv * 100\<close> when \<open>bv\<close> is not zero and exactly \<open>0\<close> when \<open>bv\<close>
  is zero, so it is always a finite number, never an infinity or \<open>NaN\<close>; and its
  \<open>improved\<close> flag is \<open>cv - bv < 0\<close>, for every metric alike.
\<close>

theorem calculateWebVitalsDiffs_entry:
  assumes "get_metric baseline k = Some bv" and "get_metric current k = Some cv"
  shows "\<exists>d. map_of (calculateWebVitalsDiffs baseline current) (key_name k) = Some d \<and>
     absolute d = cv - bv \<and>
     (bv \<noteq> 0 \<longrightarrow> percentage d = Finite ((cv - bv) / bv * 100)) \<and>
     (bv = 0 \<longrightarrow> percentage d = Finite 0) \<and>
     (\<exists>p. percentage d = Finite p) \<and>
     (improved d \<longleftrightarrow> cv - bv < 0)"
  unfolding calculateWebVitalsDiffs_def
  by (simp add: fold_diff_step_lookup [OF assms] set_metric_keys)

theorem calculateWebVitalsDiffs_entry_witness:
  "(\<exists>d. map_of (calculateWebVitalsDiffs b1 c1) ''LCP'' = Some d \<and>
        absolute d = - 1500 \<and> percentage d = Finite (- 37.5) \<and> improved d) \<and>
   (\<exists>d. map_of (calculateWebVitalsDiffs b1 c1) ''TBT'' = Some d \<and>
        absolute d = 5 \<and> percentage d = Finite 0 \<and> \<not> improved d)"
  using calculateWebVitalsDiffs_entry [of b1 K_LCP 4000 c1 2500]
    calculateWebVitalsDiffs_entry [of b1 K_TBT 0 c1 5]
  by (simp add: b1_def c1_def) blast

lemma diff_step_keys:
  "fst ` set (diff_step b c k acc) =
     fst ` set acc \<union> (if get_metric b k \<noteq> None \<and> get_metric c k \<noteq> None then {key_name k} else {})"
  by (auto simp: diff_step_def dom_update Let_def split: option.splits)

lemma fold_diff_step_keys:
  "fst ` set (fold (diff_step b c) ks acc) =
     fst ` set acc \<union>
     {key_name k | k. k \<in> set ks \<and> get_metric b k \<noteq> None \<and> get_metric c k \<noteq> None}"
proof (induction ks arbitrary: acc rule: rev_induct)
  case Nil
  show ?case by simp
next
  case (snoc x xs)
  show ?case
    unfolding fold_append comp_def fold.simps id_def diff_step_keys snoc.IH
    by auto
qed

lemma row_step_keys:
  "vr_key ` set (row_step b c e rows) =
     vr_key ` set rows \<union>
     (if get_metric b (fst e) \<noteq> None \<and> get_metric c (fst e) \<noteq> None then {key_name (fst e)} else {})"
  by (cases e) (auto simp: row_step_def Let_def split: option.splits)

lemma fold_row_step_keys:
  "vr_key ` set (fold (row_step b c) es rows) =
     vr_key ` set rows \<union>
     {key_name k | k. k \<in> fst ` set es \<and> get_metric b k \<noteq> None \<and> get_metric c k \<noteq> None}"
proof (induction es arbitrary: rows rule: rev_induct)
  case Nil
  show ?case by simp
next
  case (snoc x xs)
  show ?case
    unfolding fold_append comp_def fold.simps id_def row_step_keys snoc.IH
    by auto
qed

text \<open>
  Claim C5. For every baseline and current record, the keys of the diff dictionary and
  the keys of the rows of the comparison table are both exactly the names of the metrics
  whose value is present in the baseline and in the current record.
\<close>

theorem comparison_entries:
  "fst ` set (calculateWebVitalsDiffs baseline current) =
     {key_name k | k. get_metric baseline k \<noteq> None \<and> get_metric current k \<noteq> None} \<and>
   vr_key ` set (generateWebVitalsComparisonRows baseline current) =
     {key_name k | k. get_metric baseline k \<noteq> None \<and> get_metric current k \<noteq> None}"
  unfolding calculateWebVitalsDiffs_def generateWebVitalsComparisonRows_def
  by (simp add: fold_diff_step_keys fold_row_step_keys set_metric_keys fst_set_webVitalsInfo)

lemma fold_score_diff_other:
  "c \<notin> fst ` set bs \<Longrightarrow>
   map_of (fold (\<lambda>(category, score).
        AList.update category (or_zero (map_of cs category) - score)) bs acc) c = map_of acc c"
  by (induction bs arbitrary: acc) (auto simp: update_conv')

lemma fold_score_diff_lookup:
  "distinct (map fst bs) \<Longrightarrow> (c, s) \<in> set bs \<Longrightarrow>
   map_of (fold (\<lambda>(category, score).
        AList.update category (or_zero (map_of cs category) - score)) bs acc) c =
   Some (or_zero (map_of cs c) - s)"
proof (induction bs arbitrary: acc)
  case Nil
  then show ?case by simp
next
  case (Cons x xs)
  show ?case
  proof (cases "x = (c, s)")
    case True
    then have "c \<notin> fst ` set xs" using Cons.prems(1) by (auto simp: image_iff)
    then show ?thesis using True by (simp add: fold_score_diff_other update_conv')
  next
    case False
    then have "(c, s) \<in> set xs" "distinct (map fst xs)" using Cons.prems by auto
    then show ?thesis using Cons.IH by simp
  qed
qed

lemma or_zero_Some [simp]: "or_zero (Some t) = t"
  by (simp add: or_zero_def)

text \<open>
  Claim C6. For a category with baseline score \<open>s\<close> and current score \<open>t\<close>, the score
  difference is \<open>t - s\<close>, and the row of the score table is classed as improvement iff
  \<open>t - s > 1\<close>, as regression iff \<open>t - s < -1\<close>, and as neutral otherwise. The keys of a
  JavaScript object are distinct, which the association list has to be told.
\<close>

theorem category_delta_classification:
  assumes "distinct (map fst baselineScores)"
    and "(c, s) \<in> set baselineScores"
    and "map_of currentScores c = Some t"
  shows "map_of (calculateScoreDiffs baselineScores currentScores) c = Some (t - s) \<and>
    (\<exists>r \<in> set (score_rows baselineScores currentScores). sr_category r = c) \<and>
    (\<forall>r \<in> set (score_rows baselineScores currentScores). sr_category r = c \<longrightarrow>
       sr_diff r = t - s \<and>
       (sr_diffClass r = ''improvement'' \<longleftrightarrow> t - s > 1) \<and>
       (sr_diffClass r = ''regression'' \<longleftrightarrow> t - s < - 1) \<and>
       (sr_diffClass r = ''neutral'' \<longleftrightarrow> - 1 \<le> t - s \<and> t - s \<le> 1))"
proof (intro conjI ballI impI)
  show "map_of (calculateScoreDiffs baselineScores currentScores) c = Some (t - s)"
    using fold_score_diff_lookup [OF assms(1,2)] assms(3)
    by (simp add: calculateScoreDiffs_def)
next
  show "\<exists>r \<in> set (score_rows baselineScores currentScores). sr_category r = c"
    using assms(2) by (force simp: score_rows_def Let_def)
next
  fix r
  assume r: "r \<in> set (score_rows baselineScores currentScores)" and c: "sr_category r = c"
  then obtain s' where s': "(c, s') \<in> set baselineScores"
    and rd: "sr_diff r = t - s'"
    and rc: "sr_diffClass r = (if t - s' > 1 then ''improvement''
                         else if t - s' < - 1 then ''regression'' else ''neutral'')"
    using assms(3) by (auto simp: score_rows_def Let_def)
  have "s' = s"
    using assms(1,2) s' by (meson eq_key_imp_eq_value)
  then show "sr_diff r = t - s" using rd by simp
  show "sr_diffClass r = ''improvement'' \<longleftrightarrow> t - s > 1"
    using rc \<open>s' = s\<close> by simp
  show "sr_diffClass r = ''regression'' \<longleftrightarrow> t - s < - 1"
    using rc \<open>s' = s\<close> by simp
  show "sr_diffClass r = ''neutral'' \<longleftrightarrow> - 1 \<le> t - s \<and> t - s \<le> 1"
    using rc \<open>s' = s\<close> by auto
qed

theorem category_delta_classification_witness:
  "map_of (calculateScoreDiffs [(''performance'', 70)] [(''performance'', 70.5)])
      ''performance'' = Some 0.5 \<and>
   map sr_diffClass (score_rows [(''performance'', 70)] [(''performance'', 70.5)]) =
      [''neutral'']"
  using category_delta_classification
    [of "[(''performance'', 70)]" "''performance''" 70 "[(''performance'', 70.5)]" "70.5"]
  by (simp add: score_rows_def)

lemma fold_count_score:
  "fold count_score xs (i, r) =
     (i + length (filter (\<lambda>d. d > 1) xs), r + length (filter (\<lambda>d. d < - 1) xs))"
  by (induction xs arbitrary: i r) (auto simp: count_score_def)

lemma fold_count_vital:
  "fold count_vital xs (i, r) =
     (i + length (filter improved xs),
      r + length (filter (\<lambda>d. \<not> improved d \<and> js_gt (js_abs (percentage d)) 1) xs))"
  by (induction xs arbitrary: i r) (auto simp: count_vital_def)

lemma js_gt_abs: "js_gt (js_abs x) 1 \<longleftrightarrow>
   (case x of Finite p \<Rightarrow> \<bar>p\<bar> > 1 | PosInfinity \<Rightarrow> True | NegInfinity \<Rightarrow> True | NaN \<Rightarrow> False)"
  by (cases x) simp_all

text \<open>
  Claim C7. In the summary a metric counts as an improvement iff its \<open>improved\<close> flag is
  set, and as a regression iff the flag is not set and the absolute value of its
  percentage exceeds 1; a category counts as an improvement iff its difference exceeds 1
  and as a regression iff it is below -1. The two pairs of counters are computed by
  separate loops.
\<close>

theorem summary_counts:
  "stat_improvedWebVitals (generateSummaryStats scoreDiffs webVitalsDiffs) =
     length (filter (\<lambda>d. improved d) (map snd webVitalsDiffs)) \<and>
   stat_regressedWebVitals (generateSummaryStats scoreDiffs webVitalsDiffs) =
     length (filter (\<lambda>d. \<not> improved d \<and>
          (case percentage d of Finite p \<Rightarrow> \<bar>p\<bar> > 1 | PosInfinity \<Rightarrow> True
           | NegInfinity \<Rightarrow> True | NaN \<Rightarrow> False)) (map snd webVitalsDiffs)) \<and>
   stat_improvedScores (generateSummaryStats scoreDiffs webVitalsDiffs) =
     length (filter (\<lambda>d. d > 1) (map snd scoreDiffs)) \<and>
   stat_regressedScores (generateSummaryStats scoreDiffs webVitalsDiffs) =
     length (filter (\<lambda>d. d < - 1) (map snd scoreDiffs))"
  by (simp add: generateSummaryStats_def fold_count_score fold_count_vital js_gt_abs)


section \<open>Properties of the runner\<close>

lemma io_bind_Inr [simp]:
  "io_bind (Inr x, evs) f = (case f x of (r, evs') \<Rightarrow> (r, evs @ evs'))"
  by (simp add: io_bind_def)

lemma io_bind_Inl [simp]: "io_bind (Inl e, evs) f = (Inl e, evs)"
  by (simp add: io_bind_def)

lemma foldl_plus: "foldl (\<lambda>sum score. sum + score) a xs = a + sum_list xs"
  for a :: real
  by (induction xs arbitrary: a) simp_all

lemma collect_scores_ok:
  assumes "set cats \<subseteq> fst ` set sc" and "distinct cats"
  shows "\<exists>sc'. collect_scores cats l sc = Inr sc' \<and>
     fst ` set sc' = fst ` set sc \<and>
     (\<forall>c. map_of sc' c =
        map_option (\<lambda>xs. xs @ (if c \<in> set cats then spec_run_scores c l else []))
          (map_of sc c))"
  using assms
proof (induction cats arbitrary: sc)
  case Nil
  show ?case by (simp add: option.map_ident)
next
  case (Cons a cats)
  from Cons.prems obtain xs where xs: "map_of sc a = Some xs"
    by (metis list.set_intros(1) map_of_eq_None_iff not_Some_eq subsetD)
  show ?case
  proof (cases "map_of (categories l) a")
    case None
    from Cons.prems have "set cats \<subseteq> fst ` set sc" "distinct cats" by auto
    from Cons.IH [OF this] obtain sc' where
      sc': "collect_scores cats l sc = Inr sc'" "fst ` set sc' = fst ` set sc"
        "\<forall>c. map_of sc' c =
          map_option (\<lambda>xs. xs @ (if c \<in> set cats then spec_run_scores c l else []))
            (map_of sc c)"
      by blast
    have "\<forall>c. map_of sc' c =
        map_option (\<lambda>xs. xs @ (if c \<in> set (a # cats) then spec_run_scores c l else []))
          (map_of sc c)"
      using sc'(3) None by (auto simp: spec_run_scores_def)
    then show ?thesis using sc' None by simp
  next
    case (Some s)
    let ?sc = "AList.update a (xs @ [s * 100]) sc"
    have keys: "fst ` set ?sc = fst ` set sc"
      using Cons.prems(1) by (auto simp: dom_update)
    from Cons.prems have "set cats \<subseteq> fst ` set ?sc" "distinct cats"
      unfolding keys by auto
    from Cons.IH [OF this] obtain sc' where
      sc': "collect_scores cats l ?sc = Inr sc'" "fst ` set sc' = fst ` set ?sc"
        "\<forall>c. map_of sc' c =
          map_option (\<lambda>xs. xs @ (if c \<in> set cats then spec_run_scores c l else []))
            (map_of ?sc c)"
      by blast
    have "a \<notin> set cats" using Cons.prems(2) by simp
    then have "\<forall>c. map_of sc' c =
        map_option (\<lambda>xs. xs @ (if c \<in> set (a # cats) then spec_run_scores c l else []))
          (map_of sc c)"
      using sc'(3) Some xs by (auto simp: spec_run_scores_def update_conv')
    then show ?thesis using sc' Some xs keys by simp
  qed
qed

lemma avg_scores_ok:
  assumes "set cats \<subseteq> fst ` set sc"
  shows "\<exists>avg. avg_scores cats sc acc = Inr avg \<and>
     (\<forall>c. map_of avg c =
        (if c \<in> set cats \<and> the (map_of sc c) \<noteq> []
         then Some (sum_list (the (map_of sc c)) / real (length (the (map_of sc c))))
         else map_of acc c))"
  using assms
proof (induction cats arbitrary: acc)
  case Nil
  show ?case by simp
next
  case (Cons a cats)
  from Cons.prems obtain xs where xs: "map_of sc a = Some xs"
    by (metis list.set_intros(1) map_of_eq_None_iff not_Some_eq subsetD)
  from Cons.prems have sub: "set cats \<subseteq> fst ` set sc" by simp
  show ?case
  proof (cases "xs = []")
    case True
    from Cons.IH [OF sub, of acc] show ?thesis
      using xs True by auto
  next
    case False
    let ?acc = "AList.update a (sum_list xs / real (length xs)) acc"
    from Cons.IH [OF sub, of ?acc] show ?thesis
      using xs False by (auto simp: foldl_plus update_conv')
  qed
qed

lemma extractWebVitals_projr: "extractWebVitals l = Inr (projr (extractWebVitals l))"
  using extractWebVitals_Inr [of l] by simp

lemma run_once_ok:
  assumes lh: "lighthouse w (cfg_url config) i = Inr l"
    and io: "\<forall>s. \<not> io_fails w s"
    and cats: "set (cfg_categories config) \<subseteq> fst ` set (ls_scores st)"
      "distinct (cfg_categories config)"
  shows "\<exists>st' evs. run_once w config i st = (Inr st', evs) \<and>
     fst ` set (ls_scores st') = fst ` set (ls_scores st) \<and>
     (\<forall>c. map_of (ls_scores st') c =
        map_option (\<lambda>xs. xs @ (if c \<in> set (cfg_categories config)
                                  then spec_run_scores c l else []))
          (map_of (ls_scores st) c)) \<and>
     webVitalsResults st' = webVitalsResults st @
        [\<lparr>wvr_url = cfg_url config, metrics = projr (extractWebVitals l),
          wvr_device = cfg_device config\<rparr>]"
proof -
  from collect_scores_ok [OF cats, of l] obtain sc' where
    sc': "collect_scores (cfg_categories config) l (ls_scores st) = Inr sc'"
      "fst ` set sc' = fst ` set (ls_scores st)"
      "\<forall>c. map_of sc' c =
        map_option (\<lambda>xs. xs @ (if c \<in> set (cfg_categories config)
                                  then spec_run_scores c l else []))
          (map_of (ls_scores st) c)"
    by blast
  obtain m where m: "extractWebVitals l = Inr m" "m = projr (extractWebVitals l)"
    using extractWebVitals_projr by blast
  have "\<exists>evs. run_once w config i st =
      (Inr \<lparr>ls_scores = sc', webVitalsResults = webVitalsResults st @
        [\<lparr>wvr_url = cfg_url config, metrics = m, wvr_device = cfg_device config\<rparr>]\<rparr>, evs)"
    unfolding run_once_def call_lighthouse_def attempt_def io_lift_def io_return_def
    using lh io sc'(1) m(1)
    by (simp add: Let_def split: option.split)
  then show ?thesis using sc'(2,3) m(2) by auto
qed

lemma run_loop_ok:
  assumes lh: "\<forall>i \<in> set is. lighthouse w (cfg_url config) i = Inr (l i)"
    and io: "\<forall>s. \<not> io_fails w s"
    and cats: "set (cfg_categories config) \<subseteq> fst ` set (ls_scores st)"
      "distinct (cfg_categories config)"
  shows "\<exists>st' evs. run_loop w config is st = (Inr st', evs) \<and>
     fst ` set (ls_scores st') = fst ` set (ls_scores st) \<and>
     (\<forall>c. map_of (ls_scores st') c =
        map_option (\<lambda>xs. xs @ (if c \<in> set (cfg_categories config)
                                  then spec_present_scores c (map l is) else []))
          (map_of (ls_scores st) c)) \<and>
     webVitalsResults st' = webVitalsResults st @
        map (\<lambda>i. \<lparr>wvr_url = cfg_url config, metrics = projr (extractWebVitals (l i)),
          wvr_device = cfg_device config\<rparr>) is"
  using lh cats(1)
proof (induction "is" arbitrary: st)
  case Nil
  show ?case by (simp add: io_return_def spec_present_scores_def option.map_ident)
next
  case (Cons i "is")
  have "lighthouse w (cfg_url config) i = Inr (l i)" using Cons.prems(1) by simp
  from run_once_ok [OF this io Cons.prems(2) cats(2)] obtain st1 evs1 where
    st1: "run_once w config i st = (Inr st1, evs1)"
      "fst ` set (ls_scores st1) = fst ` set (ls_scores st)"
      "\<forall>c. map_of (ls_scores st1) c =
        map_option (\<lambda>xs. xs @ (if c \<in> set (cfg_categories config)
                                  then spec_run_scores c (l i) else []))
          (map_of (ls_scores st) c)"
      "webVitalsResults st1 = webVitalsResults st @
        [\<lparr>wvr_url = cfg_url config, metrics = projr (extractWebVitals (l i)),
          wvr_device = cfg_device config\<rparr>]"
    by blast
  have "\<forall>i \<in> set is. lighthouse w (cfg_url config) i = Inr (l i)"
    using Cons.prems(1) by simp
  moreover have "set (cfg_categories config) \<subseteq> fst ` set (ls_scores st1)"
    using Cons.prems(2) st1(2) by simp
  ultimately obtain st2 evs2 where
    st2: "run_loop w config is st1 = (Inr st2, evs2)"
      "fst ` set (ls_scores st2) = fst ` set (ls_scores st1)"
      "\<forall>c. map_of (ls_scores st2) c =
        map_option (\<lambda>xs. xs @ (if c \<in> set (cfg_categories config)
                                  then spec_present_scores c (map l is) else []))
          (map_of (ls_scores st1) c)"
      "webVitalsResults st2 = webVitalsResults st1 @
        map (\<lambda>i. \<lparr>wvr_url = cfg_url config, metrics = projr (extractWebVitals (l i)),
          wvr_device = cfg_device config\<rparr>) is"
    using Cons.IH by blast
  have run: "run_loop w config (i # is) st = (Inr st2, evs1 @ evs2)"
    by (simp add: st1(1) st2(1))
  have look: "\<forall>c. map_of (ls_scores st2) c =
        map_option (\<lambda>xs. xs @ (if c \<in> set (cfg_categories config)
                                  then spec_present_scores c (map l (i # is)) else []))
          (map_of (ls_scores st) c)"
    using st1(3) st2(3)
    by (auto simp: spec_present_scores_def option.map_comp comp_def)
  show ?case
    using run look st1(2,4) st2(2,4) by simp
qed

lemma initial_scores_lookup:
  "c \<in> fst ` set initial_scores \<Longrightarrow> map_of initial_scores c = Some []"
  by (auto simp: initial_scores_def)

lemma run_and_aggregate_ok:
  assumes lh: "\<forall>i \<in> {1..testCount config}. lighthouse w (cfg_url config) i = Inr (l i)"
    and io: "\<forall>s. \<not> io_fails w s"
    and cats: "set (cfg_categories config) \<subseteq> fst ` set initial_scores"
      "distinct (cfg_categories config)"
    and n: "1 \<le> testCount config"
  shows "\<exists>r rs evs. run_and_aggregate w config = (Inr (r, rs), evs) \<and>
     (\<forall>c. map_of (scores r) c =
        (let xs = spec_present_scores c (map l [1..<Suc (testCount config)])
         in if c \<in> set (cfg_categories config) \<and> xs \<noteq> []
            then Some (sum_list xs / real (length xs)) else None)) \<and>
     webVitals r = projr (extractWebVitals (l (testCount config))) \<and>
     rs \<noteq> [] \<and> metrics (last rs) = webVitals r"
proof -
  let ?st0 = "\<lparr>ls_scores = initial_scores, webVitalsResults = []\<rparr>"
  let ?is = "[1..<Suc (testCount config)]"
  let ?f = "\<lambda>i. \<lparr>wvr_url = cfg_url config, metrics = projr (extractWebVitals (l i)),
          wvr_device = cfg_device config\<rparr>"
  have lh': "\<forall>i \<in> set ?is. lighthouse w (cfg_url config) i = Inr (l i)"
    using lh by auto
  have cats0: "set (cfg_categories config) \<subseteq> fst ` set (ls_scores ?st0)"
    using cats(1) by simp
  from run_loop_ok [OF lh' io cats0 cats(2)] obtain st evs where
    st: "run_loop w config ?is ?st0 = (Inr st, evs)"
      "fst ` set (ls_scores st) = fst ` set initial_scores"
      "\<forall>c. map_of (ls_scores st) c =
        map_option (\<lambda>xs. xs @ (if c \<in> set (cfg_categories config)
                                  then spec_present_scores c (map l ?is) else []))
          (map_of initial_scores c)"
      "webVitalsResults st = map ?f ?is"
    by auto
  have sub: "set (cfg_categories config) \<subseteq> fst ` set (ls_scores st)"
    using cats(1) st(2) by simp
  from avg_scores_ok [OF sub, of "[]"] obtain avg where
    avg: "avg_scores (cfg_categories config) (ls_scores st) [] = Inr avg"
      "\<forall>c. map_of avg c =
        (if c \<in> set (cfg_categories config) \<and> the (map_of (ls_scores st) c) \<noteq> []
         then Some (sum_list (the (map_of (ls_scores st) c)) /
                    real (length (the (map_of (ls_scores st) c))))
         else map_of [] c)"
    by blast
  have look: "\<forall>c. map_of avg c =
        (let xs = spec_present_scores c (map l ?is)
         in if c \<in> set (cfg_categories config) \<and> xs \<noteq> []
            then Some (sum_list xs / real (length xs)) else None)"
  proof
    fix c
    show "map_of avg c =
        (let xs = spec_present_scores c (map l ?is)
         in if c \<in> set (cfg_categories config) \<and> xs \<noteq> []
            then Some (sum_list xs / real (length xs)) else None)"
    proof (cases "c \<in> set (cfg_categories config)")
      case True
      then have "map_of initial_scores c = Some []"
        using cats(1) initial_scores_lookup by blast
      then have "map_of (ls_scores st) c = Some (spec_present_scores c (map l ?is))"
        using st(3) True by simp
      then show ?thesis using avg(2) True by (simp add: Let_def)
    next
      case False
      then show ?thesis using avg(2) by (simp add: Let_def)
    qed
  qed
  have ne: "webVitalsResults st \<noteq> []"
    using n st(4) by simp
  have lastm: "metrics (last (webVitalsResults st)) =
      projr (extractWebVitals (l (testCount config)))"
    using n st(4) by (simp add: last_map del: upt_Suc)
  let ?r = "\<lparr>url = cfg_url config, device = cfg_device config, scores = avg,
             webVitals = metrics (last (webVitalsResults st))\<rparr>"
  have "run_and_aggregate w config =
      (Inr (?r, webVitalsResults st), Done EnsureDirs # evs @ [Done Screenshot])"
    unfolding run_and_aggregate_def attempt_def io_lift_def io_return_def last_metrics_def
    using io st(1) avg(1) ne by simp
  then show ?thesis
    using look lastm ne by simp
qed


text \<open>
  Claim C8. When the \<open>N \<ge> 1\<close> audits of a session succeed, no file or browser operation
  fails and the configured categories are distinct keys of the score dictionary, the
  aggregation returns a result in which the score of every configured category is the
  arithmetic mean of the rescaled scores of the runs that have the category; a run
  without the category contributes nothing, and a category that no run has (or that is
  not configured) gets no score.
\<close>

theorem aggregated_scores_mean:
  assumes "\<forall>i \<in> {1..testCount config}. lighthouse w (cfg_url config) i = Inr (l i)"
    and "\<forall>s. \<not> io_fails w s"
    and "set (cfg_categories config) \<subseteq> fst ` set initial_scores"
    and "distinct (cfg_categories config)"
    and "1 \<le> testCount config"
  shows "\<exists>r rs evs. run_and_aggregate w config = (Inr (r, rs), evs) \<and>
     (\<forall>c. map_of (scores r) c =
        (let xs = spec_present_scores c (map l [1..<Suc (testCount config)])
         in if c \<in> set (cfg_categories config) \<and> xs \<noteq> []
            then Some (sum_list xs / real (length xs)) else None))"
  using run_and_aggregate_ok [OF assms] by blast

lemma w_ok_runs:
  "\<forall>i \<in> {1..testCount cfg0}. lighthouse w_ok (cfg_url cfg0) i =
      Inr ((\<lambda>i. if i = 1 then lh 0.8 100 else if i = 2 then lh 1 200 else lh 0.6 300) i)"
  by (simp add: w_ok_def)

lemma w_ok_io: "\<forall>s. \<not> io_fails w_ok s"
  by (simp add: w_ok_def)

lemma cfg0_categories:
  "set (cfg_categories cfg0) \<subseteq> fst ` set initial_scores" "distinct (cfg_categories cfg0)"
  by (simp_all add: cfg0_def initial_scores_def)

lemma upt_1_4: "[1..<Suc 3] = [1, 2, 3]"
  by (simp add: upt_rec)

theorem aggregated_scores_mean_witness:
  "\<exists>r rs evs. run_and_aggregate w_ok cfg0 = (Inr (r, rs), evs) \<and>
     map_of (scores r) ''performance'' = Some 80 \<and>
     map_of (scores r) ''seo'' = None"
proof -
  have n: "1 \<le> testCount cfg0" by (simp add: cfg0_def)
  from aggregated_scores_mean [OF w_ok_runs w_ok_io cfg0_categories n]
  obtain r rs evs where r: "run_and_aggregate w_ok cfg0 = (Inr (r, rs), evs)"
    and sc: "\<forall>c. map_of (scores r) c =
        (let xs = spec_present_scores c
            (map (\<lambda>i. if i = 1 then lh 0.8 100 else if i = 2 then lh 1 200 else lh 0.6 300)
              [1..<Suc (testCount cfg0)])
         in if c \<in> set (cfg_categories cfg0) \<and> xs \<noteq> []
            then Some (sum_list xs / real (length xs)) else None)"
    by blast
  have tc: "testCount cfg0 = 3" by (simp add: cfg0_def)
  have "map_of (scores r) ''performance'' = Some 80"
    unfolding sc [rule_format] tc upt_1_4
    by (simp add: spec_present_scores_def spec_run_scores_def lh_def cfg0_def)
  moreover have "map_of (scores r) ''seo'' = None"
    unfolding sc [rule_format] tc upt_1_4
    by (simp add: spec_present_scores_def spec_run_scores_def lh_def cfg0_def)
  ultimately show ?thesis using r by blast
qed

lemma last_metrics_Inr: "rs \<noteq> [] \<Longrightarrow> last_metrics rs = Inr (metrics (last rs))"
  by (simp add: last_metrics_def)

text \<open>
  Claim C9. When the \<open>N \<ge> 1\<close> audits of a session succeed, no file or browser operation
  fails and the configured categories are distinct keys of the score dictionary, the
  metrics of the aggregated result are those that \<open>extractWebVitals\<close> yields for the
  report of the \<open>N\<close>-th run, not an average over the runs, and the detailed report is
  written from report data whose metrics, evaluations and recommendations are computed
  from these metrics.
\<close>

theorem last_run_metrics:
  assumes "\<forall>i \<in> {1..testCount config}. lighthouse w (cfg_url config) i = Inr (l i)"
    and "\<forall>s. \<not> io_fails w s"
    and "set (cfg_categories config) \<subseteq> fst ` set initial_scores"
    and "distinct (cfg_categories config)"
    and "1 \<le> testCount config"
  shows "\<exists>r rs evs rd. run_and_aggregate w config = (Inr (r, rs), evs) \<and>
     extractWebVitals (l (testCount config)) = Inr (webVitals r) \<and>
     generateDetailedReport w r rs = (Inr (), [DetailedReport rd]) \<and>
     rd_webVitals rd = webVitals r \<and>
     evaluations rd = evaluateWebVitals (webVitals r) \<and>
     recommendations rd =
       generateWebVitalsRecommendations (webVitals r) (evaluateWebVitals (webVitals r))"
proof -
  from run_and_aggregate_ok [OF assms] obtain r rs evs where
    r: "run_and_aggregate w config = (Inr (r, rs), evs)"
      "webVitals r = projr (extractWebVitals (l (testCount config)))"
      "rs \<noteq> []" "metrics (last rs) = webVitals r"
    by blast
  have ex: "extractWebVitals (l (testCount config)) = Inr (webVitals r)"
    using extractWebVitals_projr [of "l (testCount config)"] r(2) by simp
  let ?rd = "\<lparr>rd_url = url r, rd_device = device r, rd_scores = scores r,
              rd_webVitals = webVitals r, evaluations = evaluateWebVitals (webVitals r),
              recommendations =
                generateWebVitalsRecommendations (webVitals r)
                  (evaluateWebVitals (webVitals r))\<rparr>"
  have "generateDetailedReport w r rs = (Inr (), [DetailedReport ?rd])"
    unfolding generateDetailedReport_def io_lift_def attempt_def
    using assms(2) last_metrics_Inr [OF r(3)] r(4) by (simp add: Let_def)
  then show ?thesis using r(1) ex
    by (intro exI [of _ r] exI [of _ rs] exI [of _ evs] exI [of _ ?rd]) simp
qed

theorem last_run_metrics_witness:
  "\<exists>r rs evs rd. run_and_aggregate w_ok cfg0 = (Inr (r, rs), evs) \<and>
     LCP (webVitals r) = Some 300 \<and>
     generateDetailedReport w_ok r rs = (Inr (), [DetailedReport rd]) \<and>
     LCP (rd_webVitals rd) = Some 300"
proof -
  have n: "1 \<le> testCount cfg0" by (simp add: cfg0_def)
  from last_run_metrics [OF w_ok_runs w_ok_io cfg0_categories n]
  obtain r rs evs rd where r: "run_and_aggregate w_ok cfg0 = (Inr (r, rs), evs)"
    and ex: "extractWebVitals
       (if testCount cfg0 = 1 then lh 0.8 100
        else if testCount cfg0 = 2 then lh 1 200 else lh 0.6 300) = Inr (webVitals r)"
    and rd: "generateDetailedReport w_ok r rs = (Inr (), [DetailedReport rd])"
      "rd_webVitals rd = webVitals r"
    by blast
  have "extractWebVitals (lh 0.6 300) = Inr (webVitals r)"
    using ex by (simp add: cfg0_def)
  then have "LCP (webVitals r) = Some 300"
    by (simp add: extractWebVitals_Inr audit_of_def lh_def) (metis WebVitalsMetrics.select_convs(2))
  then show ?thesis using r rd by auto
qed


subsection \<open>Errors and the exit code\<close>




















end
